theory Spec2Isabelle
  imports Complex_Main
begin

section \<open>JavaScript values and configuration objects\<close>

text \<open>
  The fields of a configuration object are read with \<^verbatim>\<open>q.x || 0\<close> and tested with
  \<^verbatim>\<open>if (params.x || ...)\<close>, so a field is a JavaScript value that may be absent.
  The values that matter to that code are: \<open>undefined\<close> (the field is absent),
  \<open>null\<close>, \<open>NaN\<close> and a number. Numbers are idealised as reals (rounding
  and overflow of doubles are not modelled). A value is truthy exactly when it is a number
  other than zero.
\<close>

datatype jsval = Undefined | Null | NaN | Num real

fun truthy :: "jsval \<Rightarrow> bool" where
  "truthy (Num r) = (r \<noteq> 0)"
| "truthy Undefined = False"
| "truthy Null = False"
| "truthy NaN = False"

text \<open>The expression \<^verbatim>\<open>v || 0\<close>.\<close>

definition or_zero :: "jsval \<Rightarrow> jsval" where
  "or_zero v = (if truthy v then v else Num 0)"

text \<open>
  An axis-angle object \<^verbatim>\<open>{ x, y, z, angle }\<close>, with the field \<^verbatim>\<open>w\<close> that
  \<^verbatim>\<open>_init\<close> and the second revision's \<^verbatim>\<open>setRotation\<close> look at. The
  configuration object of a node carries the same fields and the optional array
  \<^verbatim>\<open>rotations\<close>.
\<close>

record axis_angle =
  cfg_x :: jsval
  cfg_y :: jsval
  cfg_z :: jsval
  cfg_angle :: jsval
  cfg_w :: jsval

record params = axis_angle +
  rotations :: "axis_angle list option"

text \<open>The empty object \<^verbatim>\<open>{}\<close> of \<^verbatim>\<open>q = q || {}\<close>: every field is absent.\<close>

definition empty_object :: axis_angle where
  "empty_object =
     \<lparr>cfg_x = Undefined, cfg_y = Undefined, cfg_z = Undefined, cfg_angle = Undefined,
      cfg_w = Undefined\<rparr>"

section \<open>The math library, as a parameter\<close>

text \<open>
  The functions \<^verbatim>\<open>SceneJS_math_*\<close> that the node calls are not among the sources;
  the node is modelled over any implementation of them. \<open>'q\<close> is the type of
  quaternions and \<open>'m\<close> the type of matrices.
\<close>

record ('q, 'm) SceneJS_math =
  identityQuaternion :: 'q
  angleAxisQuaternion :: "jsval \<Rightarrow> jsval \<Rightarrow> jsval \<Rightarrow> jsval \<Rightarrow> 'q"
  mulQuaternions :: "'q \<Rightarrow> 'q \<Rightarrow> 'q"
  normalizeQuaternion :: "'q \<Rightarrow> 'q"
  newMat4FromQuaternion :: "'q \<Rightarrow> 'm"
  mulMat4 :: "'m \<Rightarrow> 'm \<Rightarrow> 'm"

section \<open>The quaternion node\<close>

text \<open>
  The record \<^verbatim>\<open>{ localMatrix, matrix, fixed }\<close> that a transform node publishes, and
  the node itself. The fields \<^verbatim>\<open>_fixedParams\<close>, \<^verbatim>\<open>_memoLevel\<close> and the method
  \<^verbatim>\<open>_getParams\<close> come from the base class \<^verbatim>\<open>SceneJS.Node\<close>; \<^verbatim>\<open>_mat\<close> and
  \<^verbatim>\<open>_xform\<close> are \<open>null\<close> until a render visit fills them. \<open>initCalls\<close> is
  instrumentation: it counts the calls of \<^verbatim>\<open>_init\<close> and no operation reads it.
\<close>

record 'm xform =
  localMatrix :: 'm
  matrix :: 'm
  fixed :: bool

record ('d, 'q, 'm) node =
  fixedParams :: bool
  getParams :: "'d \<Rightarrow> params"
  memoLevel :: nat
  node_mat :: "'m option"
  node_xform :: "'m xform option"
  node_q :: 'q
  initCalls :: nat

text \<open>\<^verbatim>\<open>SceneJS.Quaternion.prototype.setRotation\<close> (quaternion.js, lines 143 to 148).
  The argument is \<open>None\<close> when the caller passes none.\<close>

definition setRotation ::
  "('q, 'm) SceneJS_math \<Rightarrow> 'a axis_angle_scheme option \<Rightarrow> ('d, 'q, 'm) node \<Rightarrow> ('d, 'q, 'm) node"
where
  "setRotation M arg n =
     (let q = (case arg of None \<Rightarrow> empty_object | Some c \<Rightarrow> axis_angle.truncate c)
      in n\<lparr>node_q := angleAxisQuaternion M (or_zero (cfg_x q)) (or_zero (cfg_y q))
                    (or_zero (cfg_z q)) (or_zero (cfg_angle q)),
            memoLevel := 0\<rparr>)"

text \<open>\<^verbatim>\<open>SceneJS.Quaternion.prototype.rotate\<close> (quaternion.js, lines 169 to 173; the
  second revision's lines 119 to 123 are the same text). The name \<open>rotate\<close> is taken by
  the rotation of a list.\<close>

definition rotate_node ::
  "('q, 'm) SceneJS_math \<Rightarrow> 'a axis_angle_scheme \<Rightarrow> ('d, 'q, 'm) node \<Rightarrow> ('d, 'q, 'm) node"
where
  "rotate_node M q n =
     n\<lparr>node_q := mulQuaternions M
                (angleAxisQuaternion M (or_zero (cfg_x q)) (or_zero (cfg_y q))
                   (or_zero (cfg_z q)) (or_zero (cfg_angle q)))
                (node_q n),
       memoLevel := 0\<rparr>"

text \<open>\<^verbatim>\<open>SceneJS.Quaternion.prototype.normalize\<close> (lines 188 to 192); the name
  \<open>normalize\<close> is taken by the algebraic type classes.\<close>

definition normalize_node :: "('q, 'm) SceneJS_math \<Rightarrow> ('d, 'q, 'm) node \<Rightarrow> ('d, 'q, 'm) node" where
  "normalize_node M n = n\<lparr>node_q := normalizeQuaternion M (node_q n), memoLevel := 0\<rparr>"

text \<open>The loop of \<^verbatim>\<open>_init\<close> over \<^verbatim>\<open>params.rotations\<close> (lines 199 to 201).\<close>

fun rotate_all ::
  "('q, 'm) SceneJS_math \<Rightarrow> axis_angle list \<Rightarrow> ('d, 'q, 'm) node \<Rightarrow> ('d, 'q, 'm) node"
where
  "rotate_all M [] n = n"
| "rotate_all M (r # rs) n = rotate_all M rs (rotate_node M r n)"

text \<open>\<^verbatim>\<open>SceneJS.Quaternion.prototype._init\<close> (lines 194 to 203). The guard reads
  \<^verbatim>\<open>params.x || params.y || params.x || params.angle || params.w\<close>.\<close>

definition init :: "('q, 'm) SceneJS_math \<Rightarrow> params \<Rightarrow> ('d, 'q, 'm) node \<Rightarrow> ('d, 'q, 'm) node" where
  "init M p n =
     (let n0 = n\<lparr>initCalls := Suc (initCalls n)\<rparr>;
          n1 = (if truthy (cfg_x p) \<or> truthy (cfg_y p) \<or> truthy (cfg_x p)
                   \<or> truthy (cfg_angle p) \<or> truthy (cfg_w p)
                then setRotation M (Some p) n0 else n0)
      in case rotations p of None \<Rightarrow> n1 | Some rs \<Rightarrow> rotate_all M rs n1)"

text \<open>
  The configuration of a node is a static object or a function of the data of the render
  pass. The base class sets \<^verbatim>\<open>_fixedParams\<close> accordingly.
\<close>

datatype 'd config = Static params | Dynamic "'d \<Rightarrow> params"

text \<open>
  The constructor \<^verbatim>\<open>SceneJS.Quaternion\<close> (lines 74 to 83). \<open>memo0\<close> is the value
  that the base constructor \<^verbatim>\<open>SceneJS.Node\<close>, which is not among the sources, gives
  to \<^verbatim>\<open>_memoLevel\<close>. For a static node \<^verbatim>\<open>this._getParams()\<close> is the configuration
  object, so the test of \<^verbatim>\<open>_fixedParams\<close> and the call of \<^verbatim>\<open>_init\<close> are the first
  case below. (The factory function of lines 234 to 238 applies this constructor to an
  object that \<^verbatim>\<open>new SceneJS.Quaternion()\<close> has made; it is not modelled.)
\<close>

definition Quaternion :: "('q, 'm) SceneJS_math \<Rightarrow> nat \<Rightarrow> 'd config \<Rightarrow> ('d, 'q, 'm) node" where
  "Quaternion M memo0 cfg =
     (let n = \<lparr>fixedParams = (case cfg of Static _ \<Rightarrow> True | Dynamic _ \<Rightarrow> False),
               getParams = (case cfg of Static p \<Rightarrow> (\<lambda>_. p) | Dynamic f \<Rightarrow> f),
               memoLevel = memo0, node_mat = None, node_xform = None,
               node_q = identityQuaternion M, initCalls = 0\<rparr>
      in case cfg of Static p \<Rightarrow> init M p n | Dynamic _ \<Rightarrow> n)"

section \<open>The second revision of the node\<close>

text \<open>
  The second revision of the node (the second unnamed source file) has the same constructor,
  \<^verbatim>\<open>rotate\<close> and \<^verbatim>\<open>_render\<close>; its \<^verbatim>\<open>setRotation\<close> (lines 99 to 108) differs:
  \<^verbatim>\<open>if (q.w != undefined && q.w != null) { } else { this._q = ...(q.x || 0, q.y || 0, q.z || 0, q.angle) }\<close>.
  The loose comparison \<^verbatim>\<open>v != undefined\<close> is false exactly for \<open>undefined\<close> and
  \<open>null\<close>.
\<close>

fun nullish :: "jsval \<Rightarrow> bool" where
  "nullish Undefined = True"
| "nullish Null = True"
| "nullish NaN = False"
| "nullish (Num r) = False"

definition setRotation_rev2 ::
  "('q, 'm) SceneJS_math \<Rightarrow> 'a axis_angle_scheme option \<Rightarrow> ('d, 'q, 'm) node \<Rightarrow> ('d, 'q, 'm) node"
where
  "setRotation_rev2 M arg n =
     (let q = (case arg of None \<Rightarrow> empty_object | Some c \<Rightarrow> axis_angle.truncate c);
          n1 = (if \<not> nullish (cfg_w q) then n
                else n\<lparr>node_q := angleAxisQuaternion M (or_zero (cfg_x q)) (or_zero (cfg_y q))
                               (or_zero (cfg_z q)) (cfg_angle q)\<rparr>)
      in n1\<lparr>memoLevel := 0\<rparr>)"

section \<open>The render step\<close>

text \<open>
  Modelled from the spec: the Matrix Stack and the Instancing Flag Provider
  (\<^verbatim>\<open>SceneJS_modelViewTransformModule\<close>, \<^verbatim>\<open>SceneJS_instancingModule\<close>), which are
  not among the sources. The spec gives their contract: \<^verbatim>\<open>getTransform()\<close> returns the
  currently active transform, \<^verbatim>\<open>setTransform(t)\<close> replaces it, \<^verbatim>\<open>instancing()\<close>
  returns a boolean. The state of the two modules is the record \<open>world\<close>; the transform
  is \<open>None\<close> when it is \<open>null\<close>, which is what the node installs when its
  \<^verbatim>\<open>_xform\<close> is still \<open>null\<close>.
\<close>

record 'm world =
  transform :: "'m xform option"
  instancing :: bool

text \<open>Modelled from the spec: \<^verbatim>\<open>getTransform()\<close> returns the currently active transform.\<close>

definition getTransform :: "'m world \<Rightarrow> 'm xform option" where
  "getTransform wd = transform wd"

text \<open>Modelled from the spec: \<^verbatim>\<open>setTransform(t)\<close> replaces the active transform.\<close>

definition setTransform :: "'m xform option \<Rightarrow> 'm world \<Rightarrow> 'm world" where
  "setTransform t wd = wd\<lparr>transform := t\<rparr>"

text \<open>
  Errors are values. \<open>TypeError\<close> is what JavaScript raises on \<^verbatim>\<open>superXform.matrix\<close>
  when \<^verbatim>\<open>superXform\<close> is \<open>null\<close>; the model raises it too when a \<open>null\<close>
  \<^verbatim>\<open>_mat\<close> reaches the matrix product. \<open>ChildError\<close> is any error raised by the
  child nodes.
\<close>

datatype error = TypeError | ChildError

text \<open>\<^verbatim>\<open>_render\<close>, lines 206 to 213: the configuration and the local matrix.\<close>

definition refresh_local ::
  "('q, 'm) SceneJS_math \<Rightarrow> 'd \<Rightarrow> ('d, 'q, 'm) node \<Rightarrow> ('d, 'q, 'm) node"
where
  "refresh_local M d n =
     (if memoLevel n = 0 then
        (let n1 = (if \<not> fixedParams n then init M (getParams n d) n
                   else n\<lparr>memoLevel := 1\<rparr>)
         in n1\<lparr>node_mat := Some (newMat4FromQuaternion M (node_q n1))\<rparr>)
      else n)"

text \<open>\<^verbatim>\<open>_render\<close>, lines 215 to 226: the composed transform, given the ambient
  transform \<^verbatim>\<open>superXform\<close> that line 214 read.\<close>

definition compose ::
  "('q, 'm) SceneJS_math \<Rightarrow> 'm world \<Rightarrow> 'm xform option \<Rightarrow> ('d, 'q, 'm) node
     \<Rightarrow> error + ('d, 'q, 'm) node"
where
  "compose M wd superXform n =
     (if memoLevel n < 2 then
        (let inst = instancing wd in
         case superXform of
           None \<Rightarrow> Inl TypeError
         | Some s \<Rightarrow>
            (case node_mat n of
               None \<Rightarrow> Inl TypeError
             | Some m \<Rightarrow>
                (let tempMat = mulMat4 M (matrix s) m;
                     n1 = n\<lparr>node_xform :=
                             Some \<lparr>localMatrix = m, matrix = tempMat,
                                   fixed = (fixed s \<and> fixedParams n \<and> \<not> inst)\<rparr>\<rparr>
                 in Inr (if memoLevel n1 = 1 \<and> fixed s \<and> \<not> inst
                         then n1\<lparr>memoLevel := 2\<rparr> else n1))))
      else Inr n)"

text \<open>\<^verbatim>\<open>_render\<close>, lines 206 to 227: everything up to and including the
  \<^verbatim>\<open>setTransform(this._xform)\<close> that publishes the node's transform. The result is the
  error and the node when a step raises, and otherwise the node, the saved ambient
  transform and the state that the child nodes are rendered in.\<close>

definition publish ::
  "('q, 'm) SceneJS_math \<Rightarrow> 'd \<Rightarrow> ('d, 'q, 'm) node \<Rightarrow> 'm world
     \<Rightarrow> error \<times> ('d, 'q, 'm) node + ('d, 'q, 'm) node \<times> 'm xform option \<times> 'm world"
where
  "publish M d n wd =
     (let n1 = refresh_local M d n;
          superXform = getTransform wd
      in case compose M wd superXform n1 of
           Inl e \<Rightarrow> Inl (e, n1)
         | Inr n2 \<Rightarrow> Inr (n2, superXform, setTransform (node_xform n2) wd))"

text \<open>
  \<^verbatim>\<open>SceneJS.Quaternion.prototype._render\<close> (lines 205 to 230). \<open>rn\<close> is
  \<^verbatim>\<open>this._renderNodes\<close>, the base class's rendering of the child nodes: it may change
  the state of the modules and may raise; the model takes the child nodes to leave the
  fields of this node alone. The result is the error, if one was raised,
  with the node and the state of the modules as the render step leaves them. Nothing
  catches an error of the child nodes, so it skips line 229.
\<close>

definition render ::
  "('q, 'm) SceneJS_math \<Rightarrow> ('d \<Rightarrow> 'm world \<Rightarrow> error option \<times> 'm world) \<Rightarrow> 'd
     \<Rightarrow> ('d, 'q, 'm) node \<Rightarrow> 'm world \<Rightarrow> error option \<times> ('d, 'q, 'm) node \<times> 'm world"
where
  "render M rn d n wd =
     (case publish M d n wd of
        Inl (e, n1) \<Rightarrow> (Some e, n1, wd)
      | Inr (n2, superXform, wd1) \<Rightarrow>
         (case rn d wd1 of
            (Some e, wd2) \<Rightarrow> (Some e, n2, wd2)
          | (None, wd2) \<Rightarrow> (None, n2, setTransform superXform wd2)))"

text \<open>
  A sequence of render visits to one node. Each visit has the data of its render pass, the
  state of the modules when the traversal reaches the node, and the behaviour of the
  child nodes. The node object lives on between the visits, whether or not a visit raised.
\<close>

record ('d, 'm) visit =
  v_data :: 'd
  v_world :: "'m world"
  v_children :: "'d \<Rightarrow> 'm world \<Rightarrow> error option \<times> 'm world"

fun render_visits ::
  "('q, 'm) SceneJS_math \<Rightarrow> ('d, 'm) visit list \<Rightarrow> ('d, 'q, 'm) node \<Rightarrow> ('d, 'q, 'm) node"
where
  "render_visits M [] n = n"
| "render_visits M (v # vs) n =
     render_visits M vs (fst (snd (render M (v_children v) (v_data v) n (v_world v))))"

section \<open>The quaternion algebra of the spec\<close>

text \<open>
  The quaternion algebra and the matrix product behind \<^verbatim>\<open>SceneJS_math_*\<close> are not
  among the sources. The definitions of this section follow the spec's section on the
  Quaternion Algebra, over real numbers.
\<close>

record quaternion =
  qx :: real
  qy :: real
  qz :: real
  qw :: real

type_synonym mat4 = "real list list"

text \<open>Modelled from the spec: \<^verbatim>\<open>identity()\<close>, the rotation-free quaternion (0,0,0,1);
  \<^verbatim>\<open>SceneJS_math_identityQuaternion\<close> is missing.\<close>

definition identity :: quaternion where
  "identity = \<lparr>qx = 0, qy = 0, qz = 0, qw = 1\<rparr>"

text \<open>Modelled from the spec: \<^verbatim>\<open>fromAxisAngle(x, y, z, angleDegrees)\<close>, the unit quaternion
  of the rotation by \<open>angleDegrees\<close> about the axis (x,y,z); the axis is normalised
  internally; a zero-length axis or a zero angle yields the identity.
  \<^verbatim>\<open>SceneJS_math_angleAxisQuaternion\<close> is missing.\<close>

definition fromAxisAngle :: "real \<Rightarrow> real \<Rightarrow> real \<Rightarrow> real \<Rightarrow> quaternion" where
  "fromAxisAngle x y z angleDegrees =
     (let len = sqrt (x * x + y * y + z * z) in
      if len = 0 \<or> angleDegrees = 0 then identity
      else (let halfAngle = (angleDegrees / 180 * pi) / 2; s = sin halfAngle
            in \<lparr>qx = s * (x / len), qy = s * (y / len), qz = s * (z / len),
                qw = cos halfAngle\<rparr>))"

text \<open>Modelled from the spec: \<^verbatim>\<open>multiply(a, b)\<close>, the quaternion product \<open>a * b\<close>;
  \<^verbatim>\<open>SceneJS_math_mulQuaternions\<close> is missing.\<close>

definition multiply :: "quaternion \<Rightarrow> quaternion \<Rightarrow> quaternion" where
  "multiply a b =
     \<lparr>qx = qw a * qx b + qx a * qw b + qy a * qz b - qz a * qy b,
      qy = qw a * qy b + qy a * qw b + qz a * qx b - qx a * qz b,
      qz = qw a * qz b + qz a * qw b + qx a * qy b - qy a * qx b,
      qw = qw a * qw b - qx a * qx b - qy a * qy b - qz a * qz b\<rparr>"

text \<open>Modelled from the spec: \<^verbatim>\<open>normalize(q)\<close>, the rescaling to unit length, which
  returns the identity when the magnitude is (near) zero; the spec gives no threshold and
  the model takes zero. \<^verbatim>\<open>SceneJS_math_normalizeQuaternion\<close> is missing.\<close>

definition normalize_q :: "quaternion \<Rightarrow> quaternion" where
  "normalize_q a =
     (let len = sqrt (qx a * qx a + qy a * qy a + qz a * qz a + qw a * qw a) in
      if len = 0 then identity
      else \<lparr>qx = qx a / len, qy = qy a / len, qz = qz a / len, qw = qw a / len\<rparr>)"

text \<open>Modelled from the spec: \<^verbatim>\<open>toMatrix(q)\<close>, the equivalent 4 by 4 homogeneous
  rotation matrix, here as the list of its rows; \<^verbatim>\<open>SceneJS_math_newMat4FromQuaternion\<close>
  is missing.\<close>

definition toMatrix :: "quaternion \<Rightarrow> mat4" where
  "toMatrix a =
     (let x = qx a; y = qy a; z = qz a; w = qw a in
      [[1 - 2 * (y * y + z * z), 2 * (x * y - z * w), 2 * (x * z + y * w), 0],
       [2 * (x * y + z * w), 1 - 2 * (x * x + z * z), 2 * (y * z - x * w), 0],
       [2 * (x * z - y * w), 2 * (y * z + x * w), 1 - 2 * (x * x + y * y), 0],
       [0, 0, 0, 1]])"

text \<open>Modelled from the spec: the matrix product of \<^verbatim>\<open>superMatrix \<times> localMatrix\<close>;
  \<^verbatim>\<open>SceneJS_math_mulMat4\<close> is missing.\<close>

definition mat_mul :: "mat4 \<Rightarrow> mat4 \<Rightarrow> mat4" where
  "mat_mul a b = map (\<lambda>r. map (\<lambda>c. sum_list (map2 (*) r c)) (transpose b)) a"

text \<open>
  Modelled from the spec: the library over JavaScript values. The spec defines the
  algebra on numbers and wants a non-numeric rotation field reported, not coerced; the
  model has no quaternion (\<open>None\<close>) for an argument that is not a number, and none for
  an operation on what is no quaternion or no matrix.
\<close>

fun the_number :: "jsval \<Rightarrow> real option" where
  "the_number (Num r) = Some r"
| "the_number Undefined = None"
| "the_number Null = None"
| "the_number NaN = None"

text \<open>Modelled from the spec: \<^verbatim>\<open>SceneJS_math_angleAxisQuaternion\<close> on JavaScript values,
  which is \<^verbatim>\<open>fromAxisAngle\<close> on four numbers.\<close>

definition spec_angleAxisQuaternion ::
  "jsval \<Rightarrow> jsval \<Rightarrow> jsval \<Rightarrow> jsval \<Rightarrow> quaternion option"
where
  "spec_angleAxisQuaternion x y z degrees =
     (case (the_number x, the_number y, the_number z, the_number degrees) of
        (Some x', Some y', Some z', Some a') \<Rightarrow> Some (fromAxisAngle x' y' z' a')
      | _ \<Rightarrow> None)"

text \<open>An operation of two arguments, on what may be no quaternion or no matrix.\<close>

definition lift2 :: "('a \<Rightarrow> 'b \<Rightarrow> 'c) \<Rightarrow> 'a option \<Rightarrow> 'b option \<Rightarrow> 'c option" where
  "lift2 f a b = (case (a, b) of (Some a', Some b') \<Rightarrow> Some (f a' b') | _ \<Rightarrow> None)"

text \<open>Modelled from the spec: the math library, made of the functions above.\<close>

definition spec_math :: "(quaternion option, mat4 option) SceneJS_math" where
  "spec_math =
     \<lparr>identityQuaternion = Some identity,
      angleAxisQuaternion = spec_angleAxisQuaternion,
      mulQuaternions = lift2 multiply,
      normalizeQuaternion = map_option normalize_q,
      newMat4FromQuaternion = map_option toMatrix,
      mulMat4 = lift2 mat_mul\<rparr>"

section \<open>Example inputs\<close>

text \<open>The rotations by 90 degrees about the Y axis and about the X axis.\<close>

definition rotY90 :: axis_angle where
  "rotY90 = \<lparr>cfg_x = Num 0, cfg_y = Num 1, cfg_z = Num 0, cfg_angle = Num 90, cfg_w = Undefined\<rparr>"

definition rotX90 :: axis_angle where
  "rotX90 = \<lparr>cfg_x = Num 1, cfg_y = Num 0, cfg_z = Num 0, cfg_angle = Num 90, cfg_w = Undefined\<rparr>"

text \<open>The degenerate axis-angle input \<^verbatim>\<open>{ x: 0, y: 0, z: 0, angle: 45 }\<close>.\<close>

definition zero_axis45 :: axis_angle where
  "zero_axis45 =
     \<lparr>cfg_x = Num 0, cfg_y = Num 0, cfg_z = Num 0, cfg_angle = Num 45, cfg_w = Undefined\<rparr>"

text \<open>The configuration object \<^verbatim>\<open>{}\<close>, and \<^verbatim>\<open>{ y: 0, z: 1 }\<close>, whose only nonzero
  field is \<^verbatim>\<open>z\<close>.\<close>

definition no_rotation :: params where
  "no_rotation =
     \<lparr>cfg_x = Undefined, cfg_y = Undefined, cfg_z = Undefined, cfg_angle = Undefined,
      cfg_w = Undefined, rotations = None\<rparr>"

definition only_z :: params where
  "only_z =
     \<lparr>cfg_x = Undefined, cfg_y = Num 0, cfg_z = Num 1, cfg_angle = Undefined,
      cfg_w = Undefined, rotations = None\<rparr>"

text \<open>The configuration of Example 1 in the header of quaternion.js: a base rotation of
  zeros and three rotations.\<close>

definition example1 :: params where
  "example1 =
     \<lparr>cfg_x = Num 0, cfg_y = Num 0, cfg_z = Num 0, cfg_angle = Num 0, cfg_w = Undefined,
      rotations = Some
        [\<lparr>cfg_x = Num 0, cfg_y = Num 0, cfg_z = Num 1, cfg_angle = Num 45, cfg_w = Undefined\<rparr>,
         \<lparr>cfg_x = Num 1, cfg_y = Num 0, cfg_z = Num 0, cfg_angle = Num 20, cfg_w = Undefined\<rparr>,
         \<lparr>cfg_x = Num 0, cfg_y = Num 1, cfg_z = Num 0, cfg_angle = Num 90, cfg_w = Undefined\<rparr>]\<rparr>"

text \<open>A static node without rotation, over the algebra of the spec; an ambient transform
  that is fixed; the states of the modules with it, outside and inside an instanced
  subtree; child nodes that return and child nodes that raise.\<close>

definition static_node :: "(unit, quaternion option, mat4 option) node" where
  "static_node = Quaternion spec_math 0 (Static no_rotation)"

definition ambient :: "mat4 option xform" where
  "ambient =
     \<lparr>localMatrix = Some (toMatrix identity), matrix = Some (toMatrix identity), fixed = True\<rparr>"

definition plain_world :: "mat4 option world" where
  "plain_world = \<lparr>transform = Some ambient, instancing = False\<rparr>"

definition instanced_world :: "mat4 option world" where
  "instanced_world = \<lparr>transform = Some ambient, instancing = True\<rparr>"

definition children_return :: "unit \<Rightarrow> mat4 option world \<Rightarrow> error option \<times> mat4 option world" where
  "children_return d wd = (None, wd)"

definition children_raise :: "unit \<Rightarrow> mat4 option world \<Rightarrow> error option \<times> mat4 option world" where
  "children_raise d wd = (Some ChildError, wd)"

definition instanced_visit :: "(unit, mat4 option) visit" where
  "instanced_visit = \<lparr>v_data = (), v_world = instanced_world, v_children = children_return\<rparr>"

section \<open>Basic facts about the operations\<close>

lemma memoLevel_setRotation: "memoLevel (setRotation M arg n) = 0"
  by (simp add: setRotation_def Let_def)

lemma fixedParams_setRotation [simp]: "fixedParams (setRotation M arg n) = fixedParams n"
  by (simp add: setRotation_def Let_def)
lemma getParams_setRotation [simp]: "getParams (setRotation M arg n) = getParams n"
  by (simp add: setRotation_def Let_def)
lemma initCalls_setRotation [simp]: "initCalls (setRotation M arg n) = initCalls n"
  by (simp add: setRotation_def Let_def)

lemma memoLevel_rotate: "memoLevel (rotate_node M r n) = 0"
  by (simp add: rotate_node_def)
lemma fixedParams_rotate [simp]: "fixedParams (rotate_node M r n) = fixedParams n"
  by (simp add: rotate_node_def)
lemma getParams_rotate [simp]: "getParams (rotate_node M r n) = getParams n"
  by (simp add: rotate_node_def)
lemma initCalls_rotate [simp]: "initCalls (rotate_node M r n) = initCalls n"
  by (simp add: rotate_node_def)

lemma fixedParams_rotate_all [simp]: "fixedParams (rotate_all M rs n) = fixedParams n"
  by (induction rs arbitrary: n) simp_all
lemma getParams_rotate_all [simp]: "getParams (rotate_all M rs n) = getParams n"
  by (induction rs arbitrary: n) simp_all
lemma initCalls_rotate_all [simp]: "initCalls (rotate_all M rs n) = initCalls n"
  by (induction rs arbitrary: n) simp_all
lemma memoLevel_rotate_all: "memoLevel n = 0 \<Longrightarrow> memoLevel (rotate_all M rs n) = 0"
  by (induction rs arbitrary: n) (simp_all add: memoLevel_rotate)

lemma fixedParams_init [simp]: "fixedParams (init M p n) = fixedParams n"
  by (simp add: init_def Let_def split: option.splits)
lemma getParams_init [simp]: "getParams (init M p n) = getParams n"
  by (simp add: init_def Let_def split: option.splits)
lemma initCalls_init [simp]: "initCalls (init M p n) = Suc (initCalls n)"
  by (simp add: init_def Let_def split: option.splits)
lemma memoLevel_init: "memoLevel n = 0 \<Longrightarrow> memoLevel (init M p n) = 0"
  by (simp add: init_def Let_def memoLevel_rotate_all memoLevel_setRotation split: option.splits)

lemma fixedParams_refresh_local [simp]: "fixedParams (refresh_local M d n) = fixedParams n"
  by (simp add: refresh_local_def Let_def)
lemma getParams_refresh_local [simp]: "getParams (refresh_local M d n) = getParams n"
  by (simp add: refresh_local_def Let_def)

lemma refresh_local_static:
  "fixedParams n \<Longrightarrow> refresh_local M d n =
     (if memoLevel n = 0
      then n\<lparr>memoLevel := 1, node_mat := Some (newMat4FromQuaternion M (node_q n))\<rparr> else n)"
  by (simp add: refresh_local_def Let_def)

lemma refresh_local_dynamic:
  "\<not> fixedParams n \<Longrightarrow> memoLevel n = 0 \<Longrightarrow> refresh_local M d n =
     (init M (getParams n d) n)\<lparr>node_mat :=
        Some (newMat4FromQuaternion M (node_q (init M (getParams n d) n)))\<rparr>"
  by (simp add: refresh_local_def Let_def)

lemma memoLevel_refresh_local_le: "memoLevel n \<le> 1 \<Longrightarrow> memoLevel (refresh_local M d n) \<le> 1"
  by (simp add: refresh_local_def Let_def memoLevel_init)

lemma compose_fields:
  "compose M wd sx n = Inr n2 \<Longrightarrow>
     fixedParams n2 = fixedParams n \<and> getParams n2 = getParams n \<and> initCalls n2 = initCalls n
     \<and> node_q n2 = node_q n \<and> node_mat n2 = node_mat n"
  by (auto simp: compose_def Let_def split: if_splits option.splits)

lemma compose_instancing:
  "instancing wd \<Longrightarrow> compose M wd sx n = Inr n2 \<Longrightarrow> memoLevel n2 = memoLevel n"
  by (auto simp: compose_def Let_def split: if_splits option.splits)

lemma render_node:
  "fst (snd (render M rn d n wd)) =
     (case compose M wd (getTransform wd) (refresh_local M d n) of
        Inl e \<Rightarrow> refresh_local M d n | Inr n2 \<Rightarrow> n2)"
  by (simp add: render_def publish_def Let_def split: sum.splits prod.splits option.splits)

lemma fromAxisAngle_Y90:
  "fromAxisAngle 0 1 0 90 = \<lparr>qx = 0, qy = sqrt 2 / 2, qz = 0, qw = sqrt 2 / 2\<rparr>"
  by (simp add: fromAxisAngle_def Let_def sin_45 cos_45)

lemma fromAxisAngle_X90:
  "fromAxisAngle 1 0 0 90 = \<lparr>qx = sqrt 2 / 2, qy = 0, qz = 0, qw = sqrt 2 / 2\<rparr>"
  by (simp add: fromAxisAngle_def Let_def sin_45 cos_45)

lemma rotate_Y90_then_X90:
  "node_q (rotate_node spec_math rotX90 (rotate_node spec_math rotY90 (n\<lparr>node_q := Some identity\<rparr>)))
     = Some \<lparr>qx = 1/2, qy = 1/2, qz = 1/2, qw = 1/2\<rparr>"
  by (simp add: rotate_node_def spec_math_def spec_angleAxisQuaternion_def rotX90_def rotY90_def
      or_zero_def fromAxisAngle_Y90 fromAxisAngle_X90 lift2_def multiply_def identity_def)

lemma rotate_X90_then_Y90:
  "node_q (rotate_node spec_math rotY90 (rotate_node spec_math rotX90 (n\<lparr>node_q := Some identity\<rparr>)))
     = Some \<lparr>qx = 1/2, qy = 1/2, qz = - 1/2, qw = 1/2\<rparr>"
  by (simp add: rotate_node_def spec_math_def spec_angleAxisQuaternion_def rotX90_def rotY90_def
      or_zero_def fromAxisAngle_Y90 fromAxisAngle_X90 lift2_def multiply_def identity_def)

section \<open>Facts about the render step\<close>

lemma memoLevel_normalize: "memoLevel (normalize_node M n) = 0"
  by (simp add: normalize_node_def)

lemma fixedParams_normalize [simp]: "fixedParams (normalize_node M n) = fixedParams n"
  by (simp add: normalize_node_def)

lemma memoLevel_refresh_local_static:
  "fixedParams n \<Longrightarrow> memoLevel n < 2 \<Longrightarrow> memoLevel (refresh_local M d n) = 1"
  by (auto simp: refresh_local_def Let_def)

lemma node_mat_refresh_local:
  "memoLevel n = 0 \<Longrightarrow>
     node_mat (refresh_local M d n) = Some (newMat4FromQuaternion M (node_q (refresh_local M d n)))"
  by (simp add: refresh_local_def Let_def)

lemma memoLevel_refresh_local_0:
  "memoLevel n = 0 \<Longrightarrow> memoLevel (refresh_local M d n) < 2"
  using memoLevel_refresh_local_le [of n M d] by simp

lemma compose_memoLevel_0:
  "memoLevel n = 0 \<Longrightarrow> compose M wd sx n = Inr n2 \<Longrightarrow> memoLevel n2 = 0"
  by (auto simp: compose_def Let_def split: option.splits if_splits)

text \<open>A visit inside an instanced subtree never raises the level above 1.\<close>

lemma render_memoLevel_instancing:
  assumes "instancing wd" "memoLevel n \<le> 1"
  shows "memoLevel (fst (snd (render M rn d n wd))) \<le> 1"
proof (cases "compose M wd (getTransform wd) (refresh_local M d n)")
  case (Inl e)
  then have "fst (snd (render M rn d n wd)) = refresh_local M d n"
    by (simp add: render_node)
  then show ?thesis using memoLevel_refresh_local_le [OF assms(2)] by simp
next
  case (Inr n2)
  then have "fst (snd (render M rn d n wd)) = n2"
    by (simp add: render_node)
  moreover have "memoLevel n2 = memoLevel (refresh_local M d n)"
    by (rule compose_instancing [OF assms(1) Inr])
  ultimately show ?thesis using memoLevel_refresh_local_le [OF assms(2)] by simp
qed

text \<open>The first visit to a static node at level 0, under a fixed ambient transform and
  outside instancing, takes the node to level 2 at once.\<close>

lemma render_static_first_visit:
  assumes "fixedParams n" "memoLevel n = 0" "fixed s"
  shows "fst (snd (render M rn d n \<lparr>transform = Some s, instancing = False\<rparr>)) =
     n\<lparr>memoLevel := 2,
       node_mat := Some (newMat4FromQuaternion M (node_q n)),
       node_xform := Some \<lparr>localMatrix = newMat4FromQuaternion M (node_q n),
                            matrix = mulMat4 M (matrix s) (newMat4FromQuaternion M (node_q n)),
                            fixed = True\<rparr>\<rparr>"
  using assms
  by (simp add: render_node refresh_local_static compose_def getTransform_def Let_def)

lemma publish_memoLevel_2:
  "memoLevel n = 2 \<Longrightarrow> publish M d n wd = Inr (n, getTransform wd, setTransform (node_xform n) wd)"
  by (simp add: publish_def refresh_local_def compose_def Let_def)

lemma render_node_memoLevel_2:
  "memoLevel n = 2 \<Longrightarrow> fst (snd (render M rn d n wd)) = n"
  by (simp add: render_node refresh_local_def compose_def)

text \<open>A visit to a static node never calls \<^verbatim>\<open>_init\<close> and keeps the quaternion; a visit
  to a dynamic node at level 0 calls it once and leaves the level at 0.\<close>

lemma render_static:
  assumes "fixedParams n"
  shows "fixedParams (fst (snd (render M rn d n wd)))
    \<and> initCalls (fst (snd (render M rn d n wd))) = initCalls n
    \<and> node_q (fst (snd (render M rn d n wd))) = node_q n"
proof (cases "compose M wd (getTransform wd) (refresh_local M d n)")
  case (Inl e)
  then show ?thesis using assms by (simp add: render_node refresh_local_static)
next
  case (Inr n2)
  from compose_fields [OF Inr] show ?thesis
    using assms Inr by (simp add: render_node refresh_local_static)
qed

lemma render_visits_static:
  "fixedParams n \<Longrightarrow>
     initCalls (render_visits M vs n) = initCalls n \<and> node_q (render_visits M vs n) = node_q n"
proof (induction vs arbitrary: n)
  case Nil
  then show ?case by simp
next
  case (Cons v vs)
  from render_static [OF Cons.prems, of M "v_children v" "v_data v" "v_world v"]
  show ?case using Cons.IH [of "fst (snd (render M (v_children v) (v_data v) n (v_world v)))"]
    by simp
qed

lemma render_dynamic:
  assumes "\<not> fixedParams n" and "memoLevel n = 0"
  shows "\<not> fixedParams (fst (snd (render M rn d n wd)))
    \<and> memoLevel (fst (snd (render M rn d n wd))) = 0
    \<and> initCalls (fst (snd (render M rn d n wd))) = Suc (initCalls n)"
proof -
  let ?n1 = "refresh_local M d n"
  have n1: "\<not> fixedParams ?n1 \<and> memoLevel ?n1 = 0 \<and> initCalls ?n1 = Suc (initCalls n)"
    using assms by (simp add: refresh_local_dynamic memoLevel_init)
  show ?thesis
  proof (cases "compose M wd (getTransform wd) ?n1")
    case (Inl e)
    then show ?thesis using n1 by (simp add: render_node)
  next
    case (Inr n2)
    from compose_fields [OF Inr] compose_memoLevel_0 [OF _ Inr] n1
    show ?thesis using Inr by (simp add: render_node)
  qed
qed

lemma render_visits_dynamic:
  "\<not> fixedParams n \<Longrightarrow> memoLevel n = 0 \<Longrightarrow>
     memoLevel (render_visits M vs n) = 0
     \<and> initCalls (render_visits M vs n) = initCalls n + length vs"
proof (induction vs arbitrary: n)
  case Nil
  then show ?case by simp
next
  case (Cons v vs)
  from render_dynamic [OF Cons.prems, of M "v_children v" "v_data v" "v_world v"]
  show ?case using Cons.IH [of "fst (snd (render M (v_children v) (v_data v) n (v_world v)))"]
    by simp
qed

text \<open>A visit at level 0 publishes a transform made from the quaternion and the ambient
  transform of that visit.\<close>

lemma publish_after_reset:
  assumes "memoLevel n = 0" and "getTransform wd = Some s"
  shows "case publish M d n wd of
           Inl _ \<Rightarrow> False
         | Inr (n2, superXform, wd2) \<Rightarrow>
             node_q n2 = node_q (refresh_local M d n)
             \<and> node_mat n2 = Some (newMat4FromQuaternion M (node_q n2))
             \<and> node_xform n2 =
                 Some \<lparr>localMatrix = newMat4FromQuaternion M (node_q n2),
                       matrix = mulMat4 M (matrix s) (newMat4FromQuaternion M (node_q n2)),
                       fixed = (fixed s \<and> fixedParams n \<and> \<not> instancing wd)\<rparr>
             \<and> getTransform wd2 = node_xform n2"
  using assms node_mat_refresh_local [OF assms(1), of M d]
    memoLevel_refresh_local_0 [OF assms(1), of M d]
  by (simp add: publish_def compose_def Let_def getTransform_def setTransform_def)

text \<open>An error of the child nodes leaves the state of the modules as the child nodes
  left it.\<close>

lemma render_raise_keeps_state:
  "publish M d n wd = Inr (n2, superXform, wd1) \<Longrightarrow> rn d wd1 = (Some e, wd2) \<Longrightarrow>
     render M rn d n wd = (Some e, n2, wd2)"
  by (simp add: render_def)

section \<open>The constructor and the states a node can be in\<close>

lemma Quaternion_static:
  "fixedParams (Quaternion M memo0 (Static p)) \<and> initCalls (Quaternion M memo0 (Static p)) = 1"
  by (simp add: Quaternion_def)

lemma Quaternion_dynamic:
  "Quaternion M memo0 (Dynamic f) =
     \<lparr>fixedParams = False, getParams = f, memoLevel = memo0, node_mat = None, node_xform = None,
      node_q = identityQuaternion M, initCalls = 0\<rparr>"
  by (simp add: Quaternion_def)

lemma memoLevel_Quaternion_0: "memoLevel (Quaternion M 0 cfg) = 0"
  by (cases cfg) (simp_all add: Quaternion_def memoLevel_init)

text \<open>
  Only line 210, on the static branch, gives a node the level 1, and only a node at level 1
  is promoted to level 2. So when the base constructor leaves the level at 0, a dynamic node
  is at level 0 whenever it is visited: the fact below holds after the constructor and is
  kept by every mutator and every visit.
\<close>

lemma static_or_dirty_Quaternion:
  "fixedParams (Quaternion M 0 cfg) \<or> memoLevel (Quaternion M 0 cfg) = 0"
  by (simp add: memoLevel_Quaternion_0)

lemma static_or_dirty_mutators:
  "memoLevel (setRotation M a n) = 0 \<and> memoLevel (rotate_node M r n) = 0
   \<and> memoLevel (normalize_node M n) = 0"
  by (simp add: memoLevel_setRotation memoLevel_rotate memoLevel_normalize)

lemma static_or_dirty_render:
  assumes "fixedParams n \<or> memoLevel n = 0"
  shows "fixedParams (fst (snd (render M rn d n wd)))
     \<or> memoLevel (fst (snd (render M rn d n wd))) = 0"
proof (cases "fixedParams n")
  case True
  then show ?thesis using render_static [OF True, of M rn d wd] by simp
next
  case False
  then have "memoLevel n = 0" using assms by simp
  from render_dynamic [OF False this, of M rn d wd] show ?thesis by simp
qed

section \<open>The example inputs, evaluated\<close>

lemma static_node_fields:
  "static_node =
     \<lparr>fixedParams = True, getParams = (\<lambda>_. no_rotation), memoLevel = 0, node_mat = None,
      node_xform = None, node_q = Some identity, initCalls = 1\<rparr>"
  by (simp add: static_node_def Quaternion_def init_def no_rotation_def spec_math_def)

section \<open>The claims\<close>

text \<open>
  C1, as amended. When a render step that publishes its transform returns normally (the
  child nodes raised nothing), \<^verbatim>\<open>getTransform()\<close> afterwards returns exactly the
  transform that was active before the step began. (When a step before the publish
  raises, the state of the modules is untouched; when the child nodes raise, line 229 is
  skipped, see the counterexample.)
\<close>

theorem render_restores_transform:
  assumes "fst (render M rn d n wd) = None"
  shows "getTransform (snd (snd (render M rn d n wd))) = getTransform wd"
  using assms
  by (auto simp: render_def publish_def getTransform_def setTransform_def Let_def
      split: sum.splits prod.splits option.splits)

text \<open>The static example node, visited inside an instanced subtree with child nodes that
  return: the step returns normally and the ambient transform is back.\<close>

theorem render_restores_transform_witness:
  "fst (render spec_math children_return () static_node instanced_world) = None
   \<and> getTransform (snd (snd (render spec_math children_return () static_node instanced_world)))
       = Some ambient"
proof -
  have h: "fst (render spec_math children_return () static_node instanced_world) = None"
    by (simp add: static_node_fields render_def publish_def refresh_local_def compose_def
        Let_def getTransform_def setTransform_def ambient_def instanced_world_def
        children_return_def)
  from render_restores_transform [OF h] h show ?thesis
    by (simp add: getTransform_def instanced_world_def)
qed

text \<open>
  C1 as stated fails when the child nodes raise: the same visit with child nodes that
  raise ends with the node's own transform (whose \<open>fixed\<close> flag is false, since the
  visit is instanced) still installed, not the ambient one.
\<close>

theorem render_child_error_counterexample:
  "getTransform (snd (snd (render spec_math children_raise () static_node instanced_world)))
     \<noteq> getTransform instanced_world"
  by (simp add: static_node_fields render_def publish_def refresh_local_def compose_def
      Let_def getTransform_def setTransform_def ambient_def instanced_world_def
      children_raise_def)

text \<open>
  C2. Over any sequence of render visits that all find \<^verbatim>\<open>instancing()\<close> true, a node
  that starts at level 0 or 1 (a new node, or a node after a mutator) never has a
  \<^verbatim>\<open>_memoLevel\<close> above 1, after any number \<open>k\<close> of the visits, whatever its
  configuration, the ambient transforms and the child nodes.
\<close>

theorem instancing_memoLevel_le_1:
  assumes "\<forall>v \<in> set vs. instancing (v_world v)" and "memoLevel n \<le> 1"
  shows "memoLevel (render_visits M (take k vs) n) \<le> 1"
  using assms
proof (induction vs arbitrary: n k)
  case Nil
  then show ?case by simp
next
  case (Cons v vs)
  show ?case
  proof (cases k)
    case 0
    then show ?thesis using Cons.prems by simp
  next
    case (Suc j)
    have "memoLevel (fst (snd (render M (v_children v) (v_data v) n (v_world v)))) \<le> 1"
      using Cons.prems by (intro render_memoLevel_instancing) simp_all
    then show ?thesis using Cons.IH [of _ j] Cons.prems Suc by simp
  qed
qed

text \<open>Three instanced visits to the static example node under a fixed ambient transform.\<close>

theorem instancing_memoLevel_le_1_witness:
  "instancing (v_world instanced_visit) \<and> memoLevel static_node \<le> 1
   \<and> memoLevel (render_visits spec_math
        (take 3 [instanced_visit, instanced_visit, instanced_visit]) static_node) \<le> 1"
proof -
  have h1: "\<forall>v \<in> set [instanced_visit, instanced_visit, instanced_visit].
              instancing (v_world v)"
    by (simp add: instanced_visit_def instanced_world_def)
  have h2: "memoLevel static_node \<le> 1"
    by (simp add: static_node_fields)
  from instancing_memoLevel_le_1 [OF h1 h2, of spec_math 3] h1 h2 show ?thesis
    by simp
qed

text \<open>
  C3. A static node at level 0 is visited twice under the same fixed ambient transform
  \<open>s\<close>, outside instancing. After the two visits \<^verbatim>\<open>_memoLevel\<close> is 2, and the second
  visit publishes, for the unchanged quaternion, the very matrix
  \<^verbatim>\<open>mulMat4(s.matrix, newMat4FromQuaternion(q))\<close> that a computation from scratch gives.
  (The level 2 is reached on the first visit already.)
\<close>

theorem second_visit_serves_exact_matrix:
  assumes "fixedParams n" and "memoLevel n = 0" and "fixed s"
  shows "memoLevel (render_visits M
            [\<lparr>v_data = d1, v_world = \<lparr>transform = Some s, instancing = False\<rparr>, v_children = rn1\<rparr>,
             \<lparr>v_data = d2, v_world = \<lparr>transform = Some s, instancing = False\<rparr>, v_children = rn2\<rparr>]
            n) = 2
     \<and> (case publish M d2
               (fst (snd (render M rn1 d1 n \<lparr>transform = Some s, instancing = False\<rparr>)))
               \<lparr>transform = Some s, instancing = False\<rparr> of
          Inl _ \<Rightarrow> False
        | Inr (n2, superXform, wd2) \<Rightarrow>
            node_q n2 = node_q n \<and> superXform = Some s
            \<and> map_option matrix (getTransform wd2) =
                Some (mulMat4 M (matrix s) (newMat4FromQuaternion M (node_q n))))"
proof -
  let ?w = "\<lparr>transform = Some s, instancing = False\<rparr>"
  let ?n1 = "fst (snd (render M rn1 d1 n ?w))"
  have n1: "?n1 = n\<lparr>memoLevel := 2,
       node_mat := Some (newMat4FromQuaternion M (node_q n)),
       node_xform := Some \<lparr>localMatrix = newMat4FromQuaternion M (node_q n),
                            matrix = mulMat4 M (matrix s) (newMat4FromQuaternion M (node_q n)),
                            fixed = True\<rparr>\<rparr>"
    by (rule render_static_first_visit [OF assms])
  have lvl: "memoLevel ?n1 = 2" by (simp add: n1)
  have "memoLevel (fst (snd (render M rn2 d2 ?n1 ?w))) = 2"
    using lvl by (simp only: render_node_memoLevel_2 [OF lvl])
  moreover have "publish M d2 ?n1 ?w = Inr (?n1, getTransform ?w, setTransform (node_xform ?n1) ?w)"
    by (rule publish_memoLevel_2 [OF lvl])
  ultimately show ?thesis
    by (simp add: n1 getTransform_def setTransform_def)
qed

text \<open>Two visits to the static example node under the fixed example transform.\<close>

theorem second_visit_serves_exact_matrix_witness:
  "fixedParams static_node \<and> memoLevel static_node = 0 \<and> fixed ambient
   \<and> memoLevel (render_visits spec_math
        [\<lparr>v_data = (), v_world = \<lparr>transform = Some ambient, instancing = False\<rparr>,
          v_children = children_return\<rparr>,
         \<lparr>v_data = (), v_world = \<lparr>transform = Some ambient, instancing = False\<rparr>,
          v_children = children_return\<rparr>]
        static_node) = 2
   \<and> (case publish spec_math ()
              (fst (snd (render spec_math children_return () static_node
                           \<lparr>transform = Some ambient, instancing = False\<rparr>)))
              \<lparr>transform = Some ambient, instancing = False\<rparr> of
          Inl _ \<Rightarrow> False
        | Inr (n2, superXform, wd2) \<Rightarrow>
            node_q n2 = node_q static_node \<and> superXform = Some ambient
            \<and> map_option matrix (getTransform wd2) =
                Some (mulMat4 spec_math (matrix ambient)
                        (newMat4FromQuaternion spec_math (node_q static_node))))"
proof -
  have h1: "fixedParams static_node" and h2: "memoLevel static_node = 0"
    by (simp_all add: static_node_fields)
  have h3: "fixed ambient"
    by (simp add: ambient_def)
  from second_visit_serves_exact_matrix [OF h1 h2 h3, where M = spec_math and ?d1.0 = "()"
      and ?d2.0 = "()" and ?rn1.0 = children_return and ?rn2.0 = children_return]
  show ?thesis using h1 h2 h3 by blast
qed

text \<open>
  C4. On a render visit that finds \<^verbatim>\<open>_memoLevel\<close> below 2, with the ambient transform
  \<open>s\<close> and the local matrix \<open>m\<close> of the node, the node's composed transform becomes
  the record of \<open>m\<close>, the product of \<open>s\<close>'s matrix with \<open>m\<close>, and the flag
  "\<open>s\<close> is fixed and the parameters are fixed and instancing is off"; that record is
  published; and the level becomes 2 exactly when it was 1 (after lines 206 to 213) and
  the new flag is true, and is unchanged otherwise. The node is static or at level 0, as
  every node is that the constructor and the operations produce.
\<close>

theorem publish_recomputes:
  assumes "memoLevel n < 2"
    and "fixedParams n \<or> memoLevel n = 0"
    and "getTransform wd = Some s"
    and "node_mat (refresh_local M d n) = Some m"
  shows "publish M d n wd =
     Inr ((refresh_local M d n)
            \<lparr>node_xform := Some \<lparr>localMatrix = m, matrix = mulMat4 M (matrix s) m,
                                 fixed = (fixed s \<and> fixedParams n \<and> \<not> instancing wd)\<rparr>,
             memoLevel := (if memoLevel (refresh_local M d n) = 1
                              \<and> (fixed s \<and> fixedParams n \<and> \<not> instancing wd)
                           then 2 else memoLevel (refresh_local M d n))\<rparr>,
          Some s,
          setTransform (Some \<lparr>localMatrix = m, matrix = mulMat4 M (matrix s) m,
                               fixed = (fixed s \<and> fixedParams n \<and> \<not> instancing wd)\<rparr>) wd)"
proof -
  let ?n1 = "refresh_local M d n"
  have lvl: "memoLevel ?n1 < 2"
    using assms(1) memoLevel_refresh_local_le [of n M d] by simp
  have dyn: "\<not> fixedParams n \<Longrightarrow> memoLevel ?n1 = 0"
    using assms(2) by (simp add: refresh_local_def Let_def memoLevel_init)
  show ?thesis
    using lvl dyn assms(3,4)
    by (cases "fixedParams n") (auto simp: publish_def compose_def Let_def)
qed

text \<open>The first visit to the static example node, outside instancing.\<close>

theorem publish_recomputes_witness:
  "memoLevel static_node < 2
   \<and> (fixedParams static_node \<or> memoLevel static_node = 0)
   \<and> getTransform plain_world = Some ambient
   \<and> node_mat (refresh_local spec_math () static_node) = Some (Some (toMatrix identity))
   \<and> publish spec_math () static_node plain_world =
       Inr (static_node
              \<lparr>memoLevel := 2, node_mat := Some (Some (toMatrix identity)),
               node_xform :=
                 Some \<lparr>localMatrix = Some (toMatrix identity),
                       matrix = Some (mat_mul (toMatrix identity) (toMatrix identity)),
                       fixed = True\<rparr>\<rparr>,
            Some ambient,
            \<lparr>transform =
               Some \<lparr>localMatrix = Some (toMatrix identity),
                     matrix = Some (mat_mul (toMatrix identity) (toMatrix identity)),
                     fixed = True\<rparr>,
             instancing = False\<rparr>)"
proof -
  have h1: "memoLevel static_node < 2"
    and h2: "fixedParams static_node \<or> memoLevel static_node = 0"
    by (simp_all add: static_node_fields)
  have h3: "getTransform plain_world = Some ambient"
    by (simp add: getTransform_def plain_world_def)
  have r: "refresh_local spec_math () static_node =
      static_node\<lparr>memoLevel := 1, node_mat := Some (Some (toMatrix identity))\<rparr>"
    by (simp add: static_node_fields refresh_local_def spec_math_def)
  have h4: "node_mat (refresh_local spec_math () static_node) = Some (Some (toMatrix identity))"
    by (simp add: r)
  have "publish spec_math () static_node plain_world =
       Inr (static_node
              \<lparr>memoLevel := 2, node_mat := Some (Some (toMatrix identity)),
               node_xform :=
                 Some \<lparr>localMatrix = Some (toMatrix identity),
                       matrix = Some (mat_mul (toMatrix identity) (toMatrix identity)),
                       fixed = True\<rparr>\<rparr>,
            Some ambient,
            \<lparr>transform =
               Some \<lparr>localMatrix = Some (toMatrix identity),
                     matrix = Some (mat_mul (toMatrix identity) (toMatrix identity)),
                     fixed = True\<rparr>,
             instancing = False\<rparr>)"
    unfolding publish_recomputes [OF h1 h2 h3 h4] r
    by (simp add: static_node_fields plain_world_def ambient_def setTransform_def
        spec_math_def lift2_def)
  then show ?thesis using h1 h2 h3 h4 by blast
qed

text \<open>
  C5. \<^verbatim>\<open>rotate(q)\<close> accumulates: the node's quaternion becomes the product of the
  axis-angle quaternion of \<open>q\<close> (each field defaulted to 0), as the left operand, with the
  current quaternion, and \<^verbatim>\<open>_memoLevel\<close> becomes 0. So from the identity quaternion,
  \<^verbatim>\<open>rotate(a)\<close> then \<^verbatim>\<open>rotate(b)\<close> gives the product of the quaternion of \<open>b\<close>, the
  quaternion of \<open>a\<close> and the identity, in this order. With the quaternion algebra of the
  spec, 90 degrees about Y then 90 degrees about X differs from the reverse order. The
  second revision's \<^verbatim>\<open>rotate\<close> is the same text, so the theorem covers both.
\<close>

theorem rotate_accumulates:
  "node_q (rotate_node M r n) =
     mulQuaternions M
       (angleAxisQuaternion M (or_zero (cfg_x r)) (or_zero (cfg_y r)) (or_zero (cfg_z r))
          (or_zero (cfg_angle r)))
       (node_q n)
   \<and> memoLevel (rotate_node M r n) = 0
   \<and> node_q (rotate_node M b (rotate_node M a (n\<lparr>node_q := identityQuaternion M\<rparr>))) =
       mulQuaternions M
         (angleAxisQuaternion M (or_zero (cfg_x b)) (or_zero (cfg_y b)) (or_zero (cfg_z b))
            (or_zero (cfg_angle b)))
         (mulQuaternions M
            (angleAxisQuaternion M (or_zero (cfg_x a)) (or_zero (cfg_y a)) (or_zero (cfg_z a))
               (or_zero (cfg_angle a)))
            (identityQuaternion M))
   \<and> node_q (rotate_node spec_math rotX90
               (rotate_node spec_math rotY90 (n'\<lparr>node_q := Some identity\<rparr>)))
       \<noteq> node_q (rotate_node spec_math rotY90
                   (rotate_node spec_math rotX90 (n'\<lparr>node_q := Some identity\<rparr>)))"
proof -
  have "node_q (rotate_node spec_math rotX90
               (rotate_node spec_math rotY90 (n'\<lparr>node_q := Some identity\<rparr>)))
       \<noteq> node_q (rotate_node spec_math rotY90
                   (rotate_node spec_math rotX90 (n'\<lparr>node_q := Some identity\<rparr>)))"
    unfolding rotate_Y90_then_X90 rotate_X90_then_Y90 by simp
  then show ?thesis by (simp add: rotate_node_def)
qed

text \<open>
  C6. In the first revision \<^verbatim>\<open>setRotation\<close> replaces the quaternion by the axis-angle
  quaternion of the four fields, each defaulted to 0 (with no argument: of 0, 0, 0, 0,
  the identity in the algebra of the spec), and sets \<^verbatim>\<open>_memoLevel\<close> to 0. The second
  revision does not: with no argument it passes \<open>undefined\<close> as the angle, for which the
  algebra of the spec has no quaternion, and with a field \<^verbatim>\<open>w\<close> it leaves the
  quaternion as it was.
\<close>

theorem setRotation_rev2_drops_defaults:
  "node_q (setRotation M (Some c) n) =
     angleAxisQuaternion M (or_zero (cfg_x c)) (or_zero (cfg_y c)) (or_zero (cfg_z c))
       (or_zero (cfg_angle c))
   \<and> node_q (setRotation M None n) = angleAxisQuaternion M (Num 0) (Num 0) (Num 0) (Num 0)
   \<and> node_q (setRotation spec_math None n') = Some identity
   \<and> memoLevel (setRotation M arg n) = 0
   \<and> node_q (setRotation_rev2 M None n) = angleAxisQuaternion M (Num 0) (Num 0) (Num 0) Undefined
   \<and> node_q (setRotation_rev2 spec_math None n') = None
   \<and> node_q (setRotation_rev2 M (Some (c\<lparr>cfg_w := Num v\<rparr>)) n) = node_q n
   \<and> memoLevel (setRotation_rev2 M arg n) = 0"
  by (simp add: setRotation_def setRotation_rev2_def empty_object_def or_zero_def Let_def
      spec_math_def spec_angleAxisQuaternion_def fromAxisAngle_def axis_angle.truncate_def)

text \<open>
  C7, as amended. For a static node, \<^verbatim>\<open>_init\<close> runs exactly once, in the constructor,
  whatever render visits follow, and the visits keep the quaternion; when the base
  constructor starts the level at 0, the new node is at level 0, and lines 206 to 213 of
  its first visit take it to level 1 without calling \<^verbatim>\<open>_init\<close>. For a dynamic node
  whose level the base constructor starts at 0, \<^verbatim>\<open>_init\<close> has not run after the
  constructor, and after any sequence of visits the level is 0 again and \<^verbatim>\<open>_init\<close> has
  run once per visit.
\<close>

theorem init_runs_once_or_every_visit:
  fixes M :: "('q, 'm) SceneJS_math" and vs :: "('d, 'm) visit list" and d :: 'd
    and f :: "'d \<Rightarrow> params"
  defines "st memo0 p \<equiv> (Quaternion M memo0 (Static p) :: ('d, 'q, 'm) node)"
  shows "initCalls (st memo0 p) = 1
   \<and> initCalls (render_visits M vs (st memo0 p)) = 1
   \<and> node_q (render_visits M vs (st memo0 p)) = node_q (st memo0 p)
   \<and> memoLevel (st 0 p) = 0
   \<and> memoLevel (refresh_local M d (st 0 p)) = 1
   \<and> initCalls (refresh_local M d (st 0 p)) = 1
   \<and> initCalls (Quaternion M 0 (Dynamic f)) = 0
   \<and> memoLevel (render_visits M vs (Quaternion M 0 (Dynamic f))) = 0
   \<and> initCalls (render_visits M vs (Quaternion M 0 (Dynamic f))) = length vs"
proof -
  have s: "fixedParams (st k p)" for k
    by (simp add: st_def Quaternion_static)
  have d: "\<not> fixedParams (Quaternion M 0 (Dynamic f))" "memoLevel (Quaternion M 0 (Dynamic f)) = 0"
    "initCalls (Quaternion M 0 (Dynamic f)) = 0"
    by (simp_all add: Quaternion_dynamic)
  have i: "initCalls (st k p) = 1" for k
    by (simp add: st_def Quaternion_static)
  have m: "memoLevel (st 0 p) = 0"
    by (simp add: st_def memoLevel_Quaternion_0)
  show ?thesis
    using render_visits_static [OF s, of M vs memo0] render_visits_dynamic [OF d(1,2), of M vs]
    by (simp add: i m d(3) refresh_local_static [OF s])
qed

text \<open>
  C7 as stated fails: a static node does not start at level 1. With the configuration of
  Example 1 the constructor's \<^verbatim>\<open>_init\<close> calls \<^verbatim>\<open>rotate\<close>, which sets the level to 0,
  whether the base constructor started it at 0 or at 1.
\<close>

theorem static_node_level_counterexample:
  "memoLevel (Quaternion spec_math 0 (Static example1)
       :: (unit, quaternion option, mat4 option) node) \<noteq> 1
   \<and> memoLevel (Quaternion spec_math 1 (Static example1)
       :: (unit, quaternion option, mat4 option) node) \<noteq> 1"
  by (simp add: Quaternion_def init_def example1_def memoLevel_rotate)

text \<open>
  C8. \<^verbatim>\<open>fromAxisAngle\<close> on a zero-length axis, whatever the angle, is the identity
  quaternion; in particular the library call with the numbers 0, 0, 0 and 45 returns the
  identity, a quaternion of numbers, so that \<^verbatim>\<open>setRotation\<close> with that input leaves the
  node with the identity and with the identity's matrix as its local matrix. The function
  is the one modelled from the spec.
\<close>

theorem fromAxisAngle_zero_axis:
  "fromAxisAngle 0 0 0 angleDegrees = identity
   \<and> angleAxisQuaternion spec_math (Num 0) (Num 0) (Num 0) (Num 45) = Some identity
   \<and> node_q (setRotation spec_math (Some zero_axis45) n) = Some identity
   \<and> newMat4FromQuaternion spec_math (node_q (setRotation spec_math (Some zero_axis45) n))
       = Some (toMatrix identity)"
  by (simp add: spec_math_def spec_angleAxisQuaternion_def fromAxisAngle_def setRotation_def
      zero_axis45_def or_zero_def Let_def axis_angle.truncate_def)

text \<open>
  C9. In the first revision, for a configuration whose fields \<^verbatim>\<open>x\<close>, \<^verbatim>\<open>y\<close>,
  \<^verbatim>\<open>angle\<close> and \<^verbatim>\<open>w\<close> are absent or zero, whatever its \<^verbatim>\<open>z\<close>, \<^verbatim>\<open>_init\<close> does
  not call \<^verbatim>\<open>setRotation\<close>: it only applies the \<^verbatim>\<open>rotations\<close>, if any. Without
  \<^verbatim>\<open>rotations\<close> the quaternion keeps its value, the identity in the constructor.
\<close>

theorem init_ignores_z:
  assumes "\<not> truthy (cfg_x p)" and "\<not> truthy (cfg_y p)" and "\<not> truthy (cfg_angle p)"
    and "\<not> truthy (cfg_w p)"
  shows "init M p n =
           (case rotations p of
              None \<Rightarrow> n\<lparr>initCalls := Suc (initCalls n)\<rparr>
            | Some rs \<Rightarrow> rotate_all M rs (n\<lparr>initCalls := Suc (initCalls n)\<rparr>))
     \<and> node_q (init M (p\<lparr>rotations := None\<rparr>) n) = node_q n
     \<and> node_q (Quaternion M memo0 (Static (p\<lparr>rotations := None\<rparr>))) = identityQuaternion M"
  using assms by (simp add: init_def Quaternion_def Let_def)

text \<open>The configuration \<^verbatim>\<open>{ y: 0, z: 1 }\<close>.\<close>

theorem init_ignores_z_witness:
  "\<not> truthy (cfg_x only_z) \<and> \<not> truthy (cfg_y only_z) \<and> \<not> truthy (cfg_angle only_z)
   \<and> \<not> truthy (cfg_w only_z) \<and> truthy (cfg_z only_z)
   \<and> node_q (Quaternion spec_math 0 (Static only_z) :: (unit, quaternion option, mat4 option) node)
        = Some identity"
proof -
  have h: "\<not> truthy (cfg_x only_z)" "\<not> truthy (cfg_y only_z)" "\<not> truthy (cfg_angle only_z)"
    "\<not> truthy (cfg_w only_z)"
    by (simp_all add: only_z_def)
  have r: "only_z\<lparr>rotations := None\<rparr> = only_z"
    by (simp add: only_z_def)
  have "node_q (Quaternion spec_math 0 (Static (only_z\<lparr>rotations := None\<rparr>))
          :: (unit, quaternion option, mat4 option) node) = identityQuaternion spec_math"
    using init_ignores_z [OF h] by blast
  then have "node_q (Quaternion spec_math 0 (Static only_z)
          :: (unit, quaternion option, mat4 option) node) = Some identity"
    by (simp add: r spec_math_def)
  then show ?thesis using h
    by (simp add: only_z_def)
qed

text \<open>
  C10. Each of \<^verbatim>\<open>setRotation\<close>, \<^verbatim>\<open>rotate\<close> and \<^verbatim>\<open>normalize\<close> leaves
  \<^verbatim>\<open>_memoLevel\<close> at 0, and the next render visit (under an ambient transform \<open>s\<close>)
  recomputes both caches: the local matrix is the matrix of the node's quaternion of that
  visit, and the published transform is made of that matrix and of \<open>s\<close>.
\<close>

theorem mutators_reset_memoLevel:
  assumes "n' = setRotation M a n \<or> n' = rotate_node M r n \<or> n' = normalize_node M n"
    and "getTransform wd = Some s"
  shows "memoLevel n' = 0
     \<and> (case publish M d n' wd of
           Inl _ \<Rightarrow> False
         | Inr (n2, superXform, wd2) \<Rightarrow>
             node_q n2 = node_q (refresh_local M d n')
             \<and> node_mat n2 = Some (newMat4FromQuaternion M (node_q n2))
             \<and> node_xform n2 =
                 Some \<lparr>localMatrix = newMat4FromQuaternion M (node_q n2),
                       matrix = mulMat4 M (matrix s) (newMat4FromQuaternion M (node_q n2)),
                       fixed = (fixed s \<and> fixedParams n' \<and> \<not> instancing wd)\<rparr>
             \<and> getTransform wd2 = node_xform n2)"
proof -
  have lvl: "memoLevel n' = 0"
    using assms(1) by (auto simp: memoLevel_setRotation memoLevel_rotate memoLevel_normalize)
  show ?thesis
    using lvl publish_after_reset [OF lvl assms(2), of M d] by simp
qed

text \<open>The static example node at level 2 after a visit, then rotated by 90 degrees about
  Y: the level is 0 again.\<close>

theorem mutators_reset_memoLevel_witness:
  "memoLevel (fst (snd (render spec_math children_return () static_node plain_world))) = 2
   \<and> getTransform plain_world = Some ambient
   \<and> memoLevel (rotate_node spec_math rotY90
        (fst (snd (render spec_math children_return () static_node plain_world)))) = 0
   \<and> (case publish spec_math ()
              (rotate_node spec_math rotY90
                 (fst (snd (render spec_math children_return () static_node plain_world))))
              plain_world of
          Inl _ \<Rightarrow> False
        | Inr (n2, superXform, wd2) \<Rightarrow>
            node_mat n2 = Some (newMat4FromQuaternion spec_math (node_q n2))
            \<and> map_option matrix (node_xform n2) =
                Some (mulMat4 spec_math (matrix ambient)
                        (newMat4FromQuaternion spec_math (node_q n2)))
            \<and> getTransform wd2 = node_xform n2)"
proof -
  let ?n = "fst (snd (render spec_math children_return () static_node plain_world))"
  let ?n' = "rotate_node spec_math rotY90 ?n"
  have h0: "memoLevel ?n = 2"
    by (simp add: static_node_fields render_node refresh_local_def compose_def Let_def
        getTransform_def ambient_def plain_world_def)
  have h1: "?n' = setRotation spec_math (Some rotY90) ?n \<or> ?n' = rotate_node spec_math rotY90 ?n
      \<or> ?n' = normalize_node spec_math ?n"
    by simp
  have h2: "getTransform plain_world = Some ambient"
    by (simp add: getTransform_def plain_world_def)
  from mutators_reset_memoLevel [OF h1 h2, of "()"]
  have "memoLevel ?n' = 0
     \<and> (case publish spec_math () ?n' plain_world of
          Inl _ \<Rightarrow> False
        | Inr (n2, superXform, wd2) \<Rightarrow>
            node_mat n2 = Some (newMat4FromQuaternion spec_math (node_q n2))
            \<and> map_option matrix (node_xform n2) =
                Some (mulMat4 spec_math (matrix ambient)
                        (newMat4FromQuaternion spec_math (node_q n2)))
            \<and> getTransform wd2 = node_xform n2)"
    by (auto split: sum.splits)
  then show ?thesis using h0 h2 by blast
qed

end
